theory Spec2Isabelle
  imports Main
begin

section \<open>Data model\<close>

text \<open>
  Values stored in rows. The source compares them with JavaScript's strict equality
  \<open>===\<close>; on the primitive values modelled here (null, booleans, integral numbers and
  strings) strict equality is equality of values, so HOL's \<open>=\<close> is used for it. A
  property that is absent from a row reads as \<open>undefined\<close>, modelled as \<open>None\<close>;
  \<open>undefined === undefined\<close> holds, as \<open>None = None\<close> does. Values that are not
  equal to themselves or are compared by reference (\<open>NaN\<close>, arrays, objects) are left
  out.
\<close>

datatype Json = JNull | JBool bool | JNumber int | JString string

type_synonym ModelData = "(string \<times> Json) list"

definition getProp :: "ModelData \<Rightarrow> string \<Rightarrow> Json option" where
  "getProp row k = map_of row k"

datatype FieldKind = scalar | object

record DataModelSequence =
  sequenceIdentifier :: string

text \<open>
  A field of a model, with the properties that \<open>store.ts\<close> reads (the declarations of
  \<open>#core/dataModel/types.js\<close> are not part of the sources at hand). The code reads
  \<open>isId\<close>, \<open>isGenerated\<close> and \<open>sequence\<close> from every field and branches on \<open>kind\<close>;
  relation fields carry \<open>type\<close> (the target model), \<open>relationFromFields\<close> and
  \<open>relationToFields\<close>. \<open>isRequired\<close> is the nullability of a relation (\<open>False\<close> when
  the "from" columns may hold null); the reachable code never reads it, nor
  \<open>hasDefaultValue\<close>. A \<open>sequence\<close> that is \<open>false\<close> or absent is \<open>None\<close>. The field
  list of a model is written \<open>fields'\<close>.
\<close>

record DataModelField =
  kind :: FieldKind
  name :: string
  columnName :: string
  type :: string
  isId :: bool
  isGenerated :: bool
  hasDefaultValue :: bool
  isRequired :: bool
  sequence :: "DataModelSequence option"
  relationFromFields :: "string list"
  relationToFields :: "string list"

record DataModelModel =
  tableName :: string
  schemaName :: string
  fields' :: "DataModelField list"

record DataModel =
  models :: "string \<rightharpoonup> DataModelModel"

type_synonym Store = "string \<rightharpoonup> ModelData list"

text \<open>
  Statements. The source builds SQL text with \<open>format\<close> of pg-format and with
  \<open>serializeToSQL\<close>, \<open>escapeLiteral\<close> and \<open>escapeIdentifier\<close>; a statement is kept
  here as the template and the arguments passed to them. \<open>SerializeToSQL t v\<close> is the
  call \<open>serializeToSQL(t, v)\<close>, with \<open>v = None\<close> for \<open>undefined\<close>.
  \<open>InsertStatement g s t cs vs\<close> is \<open>INSERT INTO s.t (cs) [OVERRIDING SYSTEM VALUE]
  VALUES (vs)\<close>, the override present when \<open>g\<close>; \<open>SequenceFixerStatement i c s t\<close> is
  \<open>SELECT setval(i::regclass, (SELECT MAX(c) FROM s.t))\<close>.
\<close>

datatype SqlLiteral = SerializeToSQL string "Json option"

datatype Statement =
    InsertStatement bool string string "string list" "SqlLiteral list"
  | SequenceFixerStatement string string string string

datatype Error =
    CircularDependency string ModelData
  | TypeError

record Ctx =
  inserted :: "string \<rightharpoonup> ModelData list"
  pending :: "string \<rightharpoonup> ModelData list"
  statements :: "Statement list"

datatype Result = Statements "Statement list" | Undefined | Thrown Error

section \<open>createStatement\<close>

text \<open>
  Modelled from the spec: \<open>groupFields\<close> of \<open>#core/dataModel/utils.js\<close> is not part of
  the sources at hand. It splits the fields of a model by kind: the scalar fields, and
  the relation fields ("parent relations"). A relation field with no "from" column is
  skipped by the loop of \<open>createStatement\<close> (all of its zero values are null), so
  keeping such fields among the parents changes nothing.
\<close>

definition groupFields_scalars :: "DataModelField list \<Rightarrow> DataModelField list" where
  "groupFields_scalars fs = filter (\<lambda>f. kind f = scalar) fs"

definition groupFields_parents :: "DataModelField list \<Rightarrow> DataModelField list" where
  "groupFields_parents fs = filter (\<lambda>f. kind f = object) fs"

text \<open>\<open>rowIdFields\<close>: the pairs \<open>[f.name, row[f.name]]\<close> of the fields with \<open>isId\<close>.\<close>

definition rowIdFields :: "DataModelModel \<Rightarrow> ModelData \<Rightarrow> (string \<times> Json option) list" where
  "rowIdFields model row = map (\<lambda>f. (name f, getProp row (name f))) (filter isId (fields' model))"

text \<open>\<open>pairs.every(([k, v]) => r[k] === v)\<close>\<close>

definition matches :: "(string \<times> Json option) list \<Rightarrow> ModelData \<Rightarrow> bool" where
  "matches pairs r = list_all (\<lambda>(k, v). getProp r k = v) pairs"

text \<open>\<open>pairs.every(([k, v]) => r[k] !== v)\<close>, the filter applied to the pending rows.\<close>

definition differs :: "(string \<times> Json option) list \<Rightarrow> ModelData \<Rightarrow> bool" where
  "differs pairs r = list_all (\<lambda>(k, v). getProp r k \<noteq> v) pairs"

text \<open>
  \<open>parentIdFields\<close>: for every index \<open>i\<close> of \<open>relationFromFields\<close>, the pair
  \<open>[relationToFields[i], row[relationFromFields[i]]]\<close>. Past the end of
  \<open>relationToFields\<close> the key is \<open>undefined\<close>, which reads the property named
  "undefined".
\<close>

definition parentIdFields :: "DataModelField \<Rightarrow> ModelData \<Rightarrow> (string \<times> Json option) list" where
  "parentIdFields parent row =
     map (\<lambda>i. (if i < length (relationToFields parent) then relationToFields parent ! i
                else ''undefined'',
               getProp row (relationFromFields parent ! i)))
         [0 ..< length (relationFromFields parent)]"

definition insertStatement :: "DataModelModel \<Rightarrow> ModelData \<Rightarrow> Statement" where
  "insertStatement model row =
     (let isGeneratedId = (length (filter (\<lambda>f. isGenerated f \<and> isId f) (fields' model)) > 0);
          scalars = groupFields_scalars (fields' model)
      in InsertStatement isGeneratedId (schemaName model) (tableName model)
           (map columnName scalars)
           (map (\<lambda>f. SerializeToSQL (type f) (getProp row (name f))) scalars))"

text \<open>
  \<open>createStatement\<close> recurses into the parent rows of a row; the first argument bounds
  the depth of that recursion and \<open>None\<close> is returned when it is used up. The
  synthesis context (\<open>inserted\<close>, \<open>pending\<close>, \<open>statements\<close>) is shared by all the
  calls of one synthesis and is threaded through. Reading the fields of a model that
  the data model lacks, or \<open>find\<close>/\<open>some\<close> of a row list that the store or the
  context lacks, is a JavaScript \<open>TypeError\<close>.
\<close>

fun createStatement ::
    "nat \<Rightarrow> DataModel \<Rightarrow> Store \<Rightarrow> string \<Rightarrow> ModelData \<Rightarrow> Ctx \<Rightarrow> (Error + Ctx) option"
  and parentsLoop ::
    "nat \<Rightarrow> DataModel \<Rightarrow> Store \<Rightarrow> ModelData \<Rightarrow> DataModelField list \<Rightarrow> Ctx \<Rightarrow> (Error + Ctx) option"
where
  "createStatement 0 dataModel store modelName row ctx = None"
| "createStatement (Suc n) dataModel store modelName row ctx =
     (case models dataModel modelName of
        None \<Rightarrow> Some (Inl TypeError)
      | Some model \<Rightarrow>
         (case inserted ctx modelName of
            None \<Rightarrow> Some (Inl TypeError)
          | Some ins \<Rightarrow>
             if list_ex (matches (rowIdFields model row)) ins then Some (Inr ctx)
             else
               (case pending ctx modelName of
                  None \<Rightarrow> Some (Inl TypeError)
                | Some pend \<Rightarrow>
                   (case parentsLoop n dataModel store row (groupFields_parents (fields' model))
                           (ctx\<lparr>pending := (pending ctx)(modelName \<mapsto> pend @ [row])\<rparr>) of
                      None \<Rightarrow> None
                    | Some (Inl e) \<Rightarrow> Some (Inl e)
                    | Some (Inr ctx1) \<Rightarrow>
                       (case (pending ctx1 modelName, inserted ctx1 modelName) of
                          (Some pend1, Some ins1) \<Rightarrow>
                            Some (Inr (ctx1\<lparr>
                              statements := statements ctx1 @ [insertStatement model row],
                              pending := (pending ctx1)(modelName \<mapsto>
                                 filter (differs (rowIdFields model row)) pend1),
                              inserted := (inserted ctx1)(modelName \<mapsto> ins1 @ [row])\<rparr>))
                        | _ \<Rightarrow> Some (Inl TypeError))))))"
| "parentsLoop n dataModel store row [] ctx = Some (Inr ctx)"
| "parentsLoop n dataModel store row (parent # parents) ctx =
     (if list_all (\<lambda>(k, v). v = Some JNull) (parentIdFields parent row)
      then parentsLoop n dataModel store row parents ctx
      else
        (case store (type parent) of
           None \<Rightarrow> Some (Inl TypeError)
         | Some parentRows \<Rightarrow>
            (case find (matches (parentIdFields parent row)) parentRows of
               None \<Rightarrow> parentsLoop n dataModel store row parents ctx
             | Some parentRow \<Rightarrow>
                (case pending ctx (type parent) of
                   None \<Rightarrow> Some (Inl TypeError)
                 | Some pend \<Rightarrow>
                    if list_ex (matches (parentIdFields parent row)) pend
                    then Some (Inl (CircularDependency (type parent) parentRow))
                    else
                      (case createStatement n dataModel store (type parent) parentRow ctx of
                         None \<Rightarrow> None
                       | Some (Inl e) \<Rightarrow> Some (Inl e)
                       | Some (Inr ctx1) \<Rightarrow> parentsLoop n dataModel store row parents ctx1)))))"

section \<open>createStatements and toSQL\<close>

text \<open>
  \<open>fieldMap\<close> and \<open>fieldToColumnMap\<close> are JavaScript \<open>Map\<close>s built from lists of
  pairs; \<open>get\<close> returns the value of the last pair with the key.
\<close>

definition mapGet :: "('k \<times> 'v) list \<Rightarrow> 'k \<Rightarrow> 'v option" where
  "mapGet pairs k = map_of (rev pairs) k"

definition fieldMap :: "DataModelModel \<Rightarrow> (string \<times> DataModelField) list" where
  "fieldMap model =
     map (\<lambda>f. (name f, f))
       (filter (\<lambda>f. kind f = scalar \<and> \<not> (isGenerated f \<and> \<not> isId f)) (fields' model))"

definition fieldToColumnMap :: "DataModelModel \<Rightarrow> (string \<times> string) list" where
  "fieldToColumnMap model = map (\<lambda>(n, f). (name f, columnName f)) (fieldMap model)"

text \<open>
  The loop over \<open>sequenceFields\<close>: the statements it pushes to
  \<open>sequenceFixerStatements\<close>. A string is truthy when it is not empty.
\<close>

definition sequenceFixerStatement :: "DataModelModel \<Rightarrow> DataModelField \<Rightarrow> Statement list" where
  "sequenceFixerStatement model sequenceField =
     (case (mapGet (fieldToColumnMap model) (name sequenceField), sequence sequenceField) of
        (Some fieldColumn, Some sq) \<Rightarrow>
          if fieldColumn \<noteq> [] \<and> schemaName model \<noteq> [] \<and> tableName model \<noteq> []
             \<and> sequenceIdentifier sq \<noteq> []
          then [SequenceFixerStatement (sequenceIdentifier sq) fieldColumn
                  (schemaName model) (tableName model)]
          else []
      | _ \<Rightarrow> [])"

definition sequenceFixerStatements :: "DataModelModel \<Rightarrow> Statement list" where
  "sequenceFixerStatements model =
     concat (map (sequenceFixerStatement model)
               (filter (\<lambda>f. sequence f \<noteq> None) (fields' model)))"

text \<open>\<open>for (const row of rows) createStatement(...)\<close>\<close>

fun rowsLoop ::
    "nat \<Rightarrow> DataModel \<Rightarrow> Store \<Rightarrow> string \<Rightarrow> ModelData list \<Rightarrow> Ctx \<Rightarrow> (Error + Ctx) option"
where
  "rowsLoop n dataModel store modelName [] ctx = Some (Inr ctx)"
| "rowsLoop n dataModel store modelName (row # rows) ctx =
     (case createStatement n dataModel store modelName row ctx of
        None \<Rightarrow> None
      | Some (Inl e) \<Rightarrow> Some (Inl e)
      | Some (Inr ctx1) \<Rightarrow> rowsLoop n dataModel store modelName rows ctx1)"

text \<open>
  The loop over \<open>sortedModels\<close>. A model with no rows is skipped; the body ends with
  \<open>return [...statements, ...sequenceFixerStatements]\<close>, inside the loop, so the
  first model that has rows is the last one visited. When the loop runs out of models
  the function ends without a \<open>return\<close>: its value is \<open>undefined\<close>.
\<close>

fun modelsLoop ::
    "nat \<Rightarrow> DataModel \<Rightarrow> Store \<Rightarrow> (string \<times> DataModelModel) list \<Rightarrow> Statement list \<Rightarrow> Ctx
      \<Rightarrow> Result option"
where
  "modelsLoop n dataModel store [] fixers ctx = Some Undefined"
| "modelsLoop n dataModel store ((modelName, model) # sortedModels) fixers ctx =
     (case store modelName of
        None \<Rightarrow> Some (Thrown TypeError)
      | Some rows \<Rightarrow>
         if length rows = 0 then modelsLoop n dataModel store sortedModels fixers ctx
         else
           (case rowsLoop n dataModel store modelName rows ctx of
              None \<Rightarrow> None
            | Some (Inl e) \<Rightarrow> Some (Thrown e)
            | Some (Inr ctx1) \<Rightarrow>
                Some (Statements (statements ctx1 @ (fixers @ sequenceFixerStatements model)))))"

text \<open>
  The context a synthesis starts from: \<open>inserted\<close> and \<open>pending\<close> hold an empty list
  for every model of the data model, and no statement has been produced.
\<close>

definition freshCtx :: "DataModel \<Rightarrow> Ctx" where
  "freshCtx dataModel =
     \<lparr> inserted = (\<lambda>modelName. case models dataModel modelName of
                                  None \<Rightarrow> None | Some model \<Rightarrow> Some []),
       pending = (\<lambda>modelName. case models dataModel modelName of
                                 None \<Rightarrow> None | Some model \<Rightarrow> Some []),
       statements = [] \<rparr>"

text \<open>
  \<open>sortModels\<close> of \<open>#core/store/topologicalSort.js\<close> is not part of the sources at
  hand: it is a parameter. Its entries are the models of the data model, each with its
  name (\<open>entry.node\<close>).
\<close>

definition createStatements ::
    "(DataModel \<Rightarrow> (string \<times> DataModelModel) list) \<Rightarrow> nat \<Rightarrow> DataModel \<Rightarrow> Store \<Rightarrow> Result option"
where
  "createStatements sortModels n dataModel store =
     modelsLoop n dataModel store (sortModels dataModel) [] (freshCtx dataModel)"

record PgStore =
  this_dataModel :: DataModel
  this_store :: Store

text \<open>\<open>PgStore.toSQL\<close>: everything after its first \<open>return\<close> is unreachable.\<close>

definition toSQL ::
    "(DataModel \<Rightarrow> (string \<times> DataModelModel) list) \<Rightarrow> nat \<Rightarrow> PgStore \<Rightarrow> Result option"
where
  "toSQL sortModels n this = createStatements sortModels n (this_dataModel this) (this_store this)"

section \<open>Notions used to state the properties\<close>

text \<open>
  The row a relation of \<open>row\<close> refers to, when the store holds one: the first row of
  the target model whose "to" columns equal the "from" values of \<open>row\<close>. It is \<open>None\<close>
  when all the "from" values are null or when no stored row matches (the parent is
  then taken to exist outside the batch).
\<close>

definition parentRowOf :: "Store \<Rightarrow> DataModelField \<Rightarrow> ModelData \<Rightarrow> ModelData option" where
  "parentRowOf store parent row =
     (if list_all (\<lambda>(k, v). v = Some JNull) (parentIdFields parent row) then None
      else case store (type parent) of
             None \<Rightarrow> None
           | Some parentRows \<Rightarrow> find (matches (parentIdFields parent row)) parentRows)"



text \<open>
  \<open>insertedBefore dataModel store out j modelName row\<close>: before position \<open>j\<close>, the
  list \<open>out\<close> holds the INSERT of a stored row of the model that has the identity tuple
  of \<open>row\<close>.
\<close>

definition insertedBefore ::
    "DataModel \<Rightarrow> Store \<Rightarrow> Statement list \<Rightarrow> nat \<Rightarrow> string \<Rightarrow> ModelData \<Rightarrow> bool" where
  "insertedBefore dataModel store out j modelName row \<longleftrightarrow>
     (\<exists>model rows row' i. i < j \<and> models dataModel modelName = Some model \<and>
        store modelName = Some rows \<and> row' \<in> set rows \<and>
        matches (rowIdFields model row) row' \<and> out ! i = insertStatement model row')"











section \<open>Schemas and stores\<close>

text \<open>
  The data models of the tables of the test-suite, and some more, written as the
  introspection delivers them: a scalar field per column, a relation field per foreign
  key.
\<close>

definition scalarField :: "string \<Rightarrow> string \<Rightarrow> DataModelField" where
  "scalarField n t =
     \<lparr> kind = scalar, name = n, columnName = n, type = t, isId = False, isGenerated = False,
       hasDefaultValue = False, isRequired = True, sequence = None,
       relationFromFields = [], relationToFields = [] \<rparr>"

definition idField :: "string \<Rightarrow> string \<Rightarrow> DataModelField" where
  "idField n t = (scalarField n t) \<lparr> isId := True \<rparr>"

definition serialField :: "string \<Rightarrow> string \<Rightarrow> DataModelField" where
  "serialField n sq =
     (scalarField n ''int4'')
       \<lparr> isId := True, hasDefaultValue := True,
         sequence := Some \<lparr> sequenceIdentifier = sq \<rparr> \<rparr>"

definition relationField ::
    "string \<Rightarrow> string \<Rightarrow> string list \<Rightarrow> string list \<Rightarrow> bool \<Rightarrow> DataModelField" where
  "relationField n t fromFields toFields required =
     \<lparr> kind = object, name = n, columnName = [], type = t, isId = False, isGenerated = False,
       hasDefaultValue = False, isRequired = required, sequence = None,
       relationFromFields = fromFields, relationToFields = toFields \<rparr>"

text \<open>
  \<open>create table customer (id serial primary key, name text not null,
  referrer_id integer references customer(id))\<close>: the relation is nullable.
\<close>

definition customer :: DataModelModel where
  "customer =
     \<lparr> tableName = ''customer'', schemaName = ''public'',
       fields' = [serialField ''id'' ''public.customer_id_seq'',
                  scalarField ''name'' ''text'',
                  scalarField ''referrer_id'' ''int4'',
                  relationField ''customer'' ''customer'' [''referrer_id''] [''id''] False] \<rparr>"

definition customerDataModel :: DataModel where
  "customerDataModel = \<lparr> models = [''customer'' \<mapsto> customer] \<rparr>"

definition customerOnly :: "DataModel \<Rightarrow> (string \<times> DataModelModel) list" where
  "customerOnly dataModel = [(''customer'', customer)]"

definition customerRow :: "int \<Rightarrow> string \<Rightarrow> Json \<Rightarrow> ModelData" where
  "customerRow i n r = [(''id'', JNumber i), (''name'', JString n), (''referrer_id'', r)]"

definition emptyCustomerStore :: PgStore where
  "emptyCustomerStore =
     \<lparr> this_dataModel = customerDataModel, this_store = [''customer'' \<mapsto> []] \<rparr>"






text \<open>
  \<open>create table node (key integer unique, parent_key integer references node(key))\<close>:
  no primary key and no unique column that is not null, so no id field.
\<close>

definition node :: DataModelModel where
  "node =
     \<lparr> tableName = ''node'', schemaName = ''public'',
       fields' = [scalarField ''key'' ''int4'',
                  scalarField ''parent_key'' ''int4'',
                  relationField ''node'' ''node'' [''parent_key''] [''key''] False] \<rparr>"

definition nodeOnly :: "DataModel \<Rightarrow> (string \<times> DataModelModel) list" where
  "nodeOnly dataModel = [(''node'', node)]"

definition nodeRow :: "int \<Rightarrow> Json \<Rightarrow> ModelData" where
  "nodeRow k p = [(''key'', JNumber k), (''parent_key'', p)]"

definition nodeStore :: PgStore where
  "nodeStore =
     \<lparr> this_dataModel = \<lparr> models = [''node'' \<mapsto> node] \<rparr>,
       this_store = [''node'' \<mapsto> [nodeRow 1 (JNumber 2), nodeRow 2 JNull]] \<rparr>"

text \<open>A context in which node 2 has been inserted.\<close>

definition nodeCtx :: Ctx where
  "nodeCtx =
     \<lparr> inserted = [''node'' \<mapsto> [nodeRow 2 JNull]], pending = [''node'' \<mapsto> []],
       statements = [insertStatement node (nodeRow 2 JNull)] \<rparr>"




text \<open>John Doe and Jane Doe refer to each other.\<close>

definition circularCustomerStore :: PgStore where
  "circularCustomerStore =
     \<lparr> this_dataModel = customerDataModel,
       this_store = [''customer'' \<mapsto>
          [customerRow 1 ''John Doe'' (JNumber 2), customerRow 2 ''Jane Doe'' (JNumber 1)]] \<rparr>"

text \<open>A customer who is their own referrer.\<close>

definition selfReferringStore :: PgStore where
  "selfReferringStore =
     \<lparr> this_dataModel = customerDataModel,
       this_store = [''customer'' \<mapsto> [customerRow 1 ''John Doe'' (JNumber 1)]] \<rparr>"

text \<open>\<open>create table product (id serial primary key, name text not null)\<close>\<close>

definition product :: DataModelModel where
  "product =
     \<lparr> tableName = ''product'', schemaName = ''public'',
       fields' = [serialField ''id'' ''public.product_id_seq'',
                  scalarField ''name'' ''text''] \<rparr>"

definition productRow :: "int \<Rightarrow> string \<Rightarrow> ModelData" where
  "productRow i n = [(''id'', JNumber i), (''name'', JString n)]"

definition customerThenProduct :: "DataModel \<Rightarrow> (string \<times> DataModelModel) list" where
  "customerThenProduct dataModel = [(''customer'', customer), (''product'', product)]"

definition productThenCustomer :: "DataModel \<Rightarrow> (string \<times> DataModelModel) list" where
  "productThenCustomer dataModel = [(''product'', product), (''customer'', customer)]"

text \<open>One customer and one product; neither model refers to the other.\<close>

definition shopStore :: PgStore where
  "shopStore =
     \<lparr> this_dataModel = \<lparr> models = [''customer'' \<mapsto> customer, ''product'' \<mapsto> product] \<rparr>,
       this_store = [''customer'' \<mapsto> [customerRow 1 ''John Doe'' JNull],
                     ''product'' \<mapsto> [productRow 1 ''Gadget'']] \<rparr>"

text \<open>
  \<open>create table test_customer (id serial primary key not null,
  name text default 'default_name' not null, email text not null)\<close>, and the same
  table with no default on \<open>name\<close>.
\<close>

definition test_customer :: DataModelModel where
  "test_customer =
     \<lparr> tableName = ''test_customer'', schemaName = ''public'',
       fields' = [serialField ''id'' ''public.test_customer_id_seq'',
                  (scalarField ''name'' ''text'') \<lparr> hasDefaultValue := True \<rparr>,
                  scalarField ''email'' ''text''] \<rparr>"

definition test_customer_no_default :: DataModelModel where
  "test_customer_no_default =
     \<lparr> tableName = ''test_customer'', schemaName = ''public'',
       fields' = [serialField ''id'' ''public.test_customer_id_seq'',
                  scalarField ''name'' ''text'',
                  scalarField ''email'' ''text''] \<rparr>"

definition testCustomerOnly :: "DataModel \<Rightarrow> (string \<times> DataModelModel) list" where
  "testCustomerOnly dataModel = [(''test_customer'', test_customer)]"

definition testCustomerNoDefaultOnly :: "DataModel \<Rightarrow> (string \<times> DataModelModel) list" where
  "testCustomerNoDefaultOnly dataModel = [(''test_customer'', test_customer_no_default)]"

text \<open>A customer added with an email only.\<close>

definition testCustomerStore :: PgStore where
  "testCustomerStore =
     \<lparr> this_dataModel = \<lparr> models = [''test_customer'' \<mapsto> test_customer] \<rparr>,
       this_store = [''test_customer'' \<mapsto> [[(''email'', JString ''cadavre@ex.quis'')]]] \<rparr>"

definition testCustomerNoDefaultStore :: PgStore where
  "testCustomerNoDefaultStore =
     \<lparr> this_dataModel = \<lparr> models = [''test_customer'' \<mapsto> test_customer_no_default] \<rparr>,
       this_store = [''test_customer'' \<mapsto> [[(''email'', JString ''cadavre@ex.quis'')]]] \<rparr>"

text \<open>
  \<open>create table item (id serial, tenant integer, code text unique,
  first_ref text references item(code), second_ref text references item(code),
  primary key (id, tenant))\<close>. The rows are added without an id, which the database
  assigns.
\<close>

definition item :: DataModelModel where
  "item =
     \<lparr> tableName = ''item'', schemaName = ''public'',
       fields' = [serialField ''id'' ''public.item_id_seq'',
                  idField ''tenant'' ''int4'',
                  scalarField ''code'' ''text'',
                  scalarField ''first_ref'' ''text'',
                  scalarField ''second_ref'' ''text'',
                  relationField ''item_first'' ''item'' [''first_ref''] [''code''] False,
                  relationField ''item_second'' ''item'' [''second_ref''] [''code''] False] \<rparr>"

definition itemOnly :: "DataModel \<Rightarrow> (string \<times> DataModelModel) list" where
  "itemOnly dataModel = [(''item'', item)]"

definition itemRow :: "int \<Rightarrow> string \<Rightarrow> Json \<Rightarrow> Json \<Rightarrow> ModelData" where
  "itemRow t c r1 r2 =
     [(''tenant'', JNumber t), (''code'', JString c), (''first_ref'', r1), (''second_ref'', r2)]"

text \<open>
  Item A of tenant 1 refers to item X; item X of tenant 2 refers to item Z and to item
  A; item Z of tenant 2 refers to nothing.
\<close>

definition itemStore :: PgStore where
  "itemStore =
     \<lparr> this_dataModel = \<lparr> models = [''item'' \<mapsto> item] \<rparr>,
       this_store = [''item'' \<mapsto>
          [itemRow 1 ''A'' (JString ''X'') JNull,
           itemRow 2 ''X'' (JString ''Z'') (JString ''A''),
           itemRow 2 ''Z'' JNull JNull]] \<rparr>"

section \<open>Lemmas on createStatement\<close>


lemma createStatement_Inr:
  assumes "createStatement (Suc n) dataModel store modelName row ctx = Some (Inr ctx')"
  obtains model ins where "models dataModel modelName = Some model"
      "inserted ctx modelName = Some ins"
      "list_ex (matches (rowIdFields model row)) ins" "ctx' = ctx"
  | model ins pend ctx1 pend1 ins1 where "models dataModel modelName = Some model"
      "inserted ctx modelName = Some ins"
      "\<not> list_ex (matches (rowIdFields model row)) ins"
      "pending ctx modelName = Some pend"
      "parentsLoop n dataModel store row (groupFields_parents (fields' model))
         (ctx\<lparr>pending := (pending ctx)(modelName \<mapsto> pend @ [row])\<rparr>) = Some (Inr ctx1)"
      "pending ctx1 modelName = Some pend1" "inserted ctx1 modelName = Some ins1"
      "ctx' = ctx1\<lparr>statements := statements ctx1 @ [insertStatement model row],
                   pending := (pending ctx1)(modelName \<mapsto>
                      filter (differs (rowIdFields model row)) pend1),
                   inserted := (inserted ctx1)(modelName \<mapsto> ins1 @ [row])\<rparr>"
  using assms
  by (auto split: option.splits if_splits sum.splits)





lemma matches_rowIdFields_refl: "matches (rowIdFields model row) row"
  by (simp add: matches_def rowIdFields_def list_all_iff)




lemma createStatement_post:
  assumes "createStatement n dataModel store modelName row ctx = Some (Inr ctx')"
  shows "\<exists>model ins. models dataModel modelName = Some model \<and> inserted ctx' modelName = Some ins
           \<and> list_ex (matches (rowIdFields model row)) ins"
proof (cases n)
  case 0
  then show ?thesis using assms by simp
next
  case (Suc k)
  from assms[unfolded Suc] show ?thesis
  proof (cases rule: createStatement_Inr)
    case (1 model ins)
    then show ?thesis by auto
  next
    case (2 model ins pend ctx1 pend1 ins1)
    then show ?thesis using matches_rowIdFields_refl by (auto simp: list_ex_iff)
  qed
qed

section \<open>No rows at all\<close>

lemma modelsLoop_all_empty:
  "list_all (\<lambda>(modelName, model). store modelName = Some []) sortedModels \<Longrightarrow>
     modelsLoop n dataModel store sortedModels fixers ctx = Some Undefined"
  by (induction sortedModels) auto

text \<open>
  C9. When the row list of every model is empty, \<open>toSQL\<close> returns no statement list: the
  loop over the models skips each of them and \<open>createStatements\<close> ends without a
  \<open>return\<close>, so the value is \<open>undefined\<close>, not an empty list.
\<close>

theorem toSQL_no_rows_undefined:
  assumes "list_all (\<lambda>(modelName, model). this_store this modelName = Some [])
             (sortModels (this_dataModel this))"
  shows "toSQL sortModels n this = Some Undefined"
  using assms by (simp add: toSQL_def createStatements_def modelsLoop_all_empty)

theorem toSQL_no_rows_undefined_witness:
  "list_all (\<lambda>(modelName, model). this_store emptyCustomerStore modelName = Some [])
     (customerOnly (this_dataModel emptyCustomerStore))
   \<and> toSQL customerOnly 0 emptyCustomerStore = Some Undefined"
proof -
  have h: "list_all (\<lambda>(modelName, model). this_store emptyCustomerStore modelName = Some [])
     (customerOnly (this_dataModel emptyCustomerStore))"
    by (simp add: customerOnly_def emptyCustomerStore_def)
  show ?thesis
    using h toSQL_no_rows_undefined[of emptyCustomerStore customerOnly 0] by simp
qed

section \<open>Fuel monotonicity\<close>

lemma parentsLoop_fuel_step:
  assumes IH: "\<And>modelName row ctx r.
     createStatement n dataModel store modelName row ctx = Some r \<Longrightarrow>
     createStatement (Suc n) dataModel store modelName row ctx = Some r"
  shows "parentsLoop n dataModel store row parents ctx = Some r \<Longrightarrow>
     parentsLoop (Suc n) dataModel store row parents ctx = Some r"
proof (induction parents arbitrary: ctx)
  case Nil
  then show ?case by simp
next
  case (Cons parent parents)
  show ?case
  proof (cases "parentRowOf store parent row")
    case None
    then show ?thesis using Cons
      by (auto simp: parentRowOf_def split: option.splits if_splits)
  next
    case (Some parentRow)
    then have nn: "\<not> list_all (\<lambda>(k, v). v = Some JNull) (parentIdFields parent row)"
      and st: "\<exists>rows. store (type parent) = Some rows \<and>
                 find (matches (parentIdFields parent row)) rows = Some parentRow"
      by (auto simp: parentRowOf_def split: option.splits if_splits)
    then obtain rows where rows: "store (type parent) = Some rows"
      "find (matches (parentIdFields parent row)) rows = Some parentRow" by blast
    show ?thesis
    proof (cases "pending ctx (type parent)")
      case None
      then show ?thesis using Cons.prems nn rows by simp
    next
      case (Some pend)
      show ?thesis
      proof (cases "list_ex (matches (parentIdFields parent row)) pend")
        case True
        then show ?thesis using Cons.prems nn rows Some by simp
      next
        case False
        show ?thesis
        proof (cases "createStatement n dataModel store (type parent) parentRow ctx")
          case None
          then show ?thesis using Cons.prems nn rows Some False by simp
        next
          case (Some res)
          note res = this IH[OF this]
          show ?thesis
          proof (cases res)
            case (Inl e)
            then show ?thesis using Cons.prems nn rows \<open>pending ctx (type parent) = Some pend\<close> False res
              by (auto simp del: createStatement.simps)
          next
            case (Inr ctx1)
            then show ?thesis using Cons.prems Cons.IH[of ctx1] nn rows \<open>pending ctx (type parent) = Some pend\<close> False res
              by (auto simp del: createStatement.simps)
          qed
        qed
      qed
    qed
  qed
qed

lemma createStatement_fuel_Suc:
  "createStatement n dataModel store modelName row ctx = Some r \<Longrightarrow>
     createStatement (Suc n) dataModel store modelName row ctx = Some r"
proof (induction n arbitrary: modelName row ctx r)
  case 0
  then show ?case by simp
next
  case (Suc n)
  show ?case
  proof (cases "models dataModel modelName")
    case None
    then show ?thesis using Suc.prems by simp
  next
    case (Some model)
    note model = this
    show ?thesis
    proof (cases "inserted ctx modelName")
      case None
      then show ?thesis using Suc.prems model by simp
    next
      case (Some ins)
      note ins = this
      show ?thesis
      proof (cases "list_ex (matches (rowIdFields model row)) ins")
        case True
        then show ?thesis using Suc.prems model ins by simp
      next
        case False
        show ?thesis
        proof (cases "pending ctx modelName")
          case None
          then show ?thesis using Suc.prems model ins False by simp
        next
          case (Some pend)
          let ?c = "ctx\<lparr>pending := (pending ctx)(modelName \<mapsto> pend @ [row])\<rparr>"
          show ?thesis
          proof (cases "parentsLoop n dataModel store row (groupFields_parents (fields' model)) ?c")
            case None
            then show ?thesis using Suc.prems model ins False Some by simp
          next
            case (Some res)
            have
              "parentsLoop (Suc n) dataModel store row (groupFields_parents (fields' model)) ?c = Some res"
              by (rule parentsLoop_fuel_step[OF _ Some]) (rule Suc.IH)
            then show ?thesis
              using Suc.prems model ins False \<open>pending ctx modelName = Some pend\<close> Some
              by simp
          qed
        qed
      qed
    qed
  qed
qed

lemma createStatement_fuel_mono:
  "n \<le> m \<Longrightarrow> createStatement n dataModel store modelName row ctx = Some r \<Longrightarrow>
     createStatement m dataModel store modelName row ctx = Some r"
proof (induction m)
  case 0
  then show ?case by simp
next
  case (Suc m)
  show ?case
  proof (cases "n = Suc m")
    case True
    then show ?thesis using Suc.prems(2) by blast
  next
    case False
    then have "n \<le> m" using Suc.prems(1) by simp
    from createStatement_fuel_Suc[OF Suc.IH[OF this Suc.prems(2)]] show ?thesis .
  qed
qed

lemma rowsLoop_fuel_mono:
  "n \<le> m \<Longrightarrow> rowsLoop n dataModel store modelName rows ctx = Some r \<Longrightarrow>
     rowsLoop m dataModel store modelName rows ctx = Some r"
proof (induction rows arbitrary: ctx)
  case Nil
  then show ?case by simp
next
  case (Cons row rows)
  show ?case
  proof (cases "createStatement n dataModel store modelName row ctx")
    case None
    then show ?thesis using Cons.prems by simp
  next
    case (Some res)
    from createStatement_fuel_mono[OF Cons.prems(1) this] Some Cons show ?thesis
      by (cases res) auto
  qed
qed

lemma modelsLoop_fuel_mono:
  "n \<le> m \<Longrightarrow> modelsLoop n dataModel store sortedModels fixers ctx = Some r \<Longrightarrow>
     modelsLoop m dataModel store sortedModels fixers ctx = Some r"
proof (induction sortedModels)
  case Nil
  then show ?case by simp
next
  case (Cons entry sortedModels)
  obtain modelName model where entry: "entry = (modelName, model)" by (cases entry)
  show ?case
  proof (cases "store modelName")
    case None
    then show ?thesis using Cons.prems entry by simp
  next
    case (Some rows)
    show ?thesis
    proof (cases "rows = []")
      case True
      then show ?thesis using Cons entry Some by simp
    next
      case False
      show ?thesis
      proof (cases "rowsLoop n dataModel store modelName rows ctx")
        case None
        then show ?thesis using Cons.prems entry Some False by simp
      next
        case (Some res)
        from rowsLoop_fuel_mono[OF Cons.prems(1) this] Some Cons.prems
          entry \<open>store modelName = Some rows\<close> False
        show ?thesis by simp
      qed
    qed
  qed
qed

lemma toSQL_fuel_mono:
  "n \<le> m \<Longrightarrow> toSQL sortModels n this = Some r \<Longrightarrow> toSQL sortModels m this = Some r"
  unfolding toSQL_def createStatements_def by (rule modelsLoop_fuel_mono)


section \<open>Termination\<close>

















section \<open>Dependency ordering\<close>














text \<open>
  Where no other stored row of its model has the identity tuple of the parent row, the
  INSERT that stands before is that of the parent row itself.
\<close>

lemma insertedBefore_unique_identity:
  assumes "insertedBefore dataModel store out j modelName row"
    and "models dataModel modelName = Some model" and "store modelName = Some rows"
    and "\<And>r. r \<in> set rows \<Longrightarrow> matches (rowIdFields model row) r \<Longrightarrow> r = row"
  shows "\<exists>i<j. out ! i = insertStatement model row"
  using assms unfolding insertedBefore_def by fastforce




section \<open>Models with no id fields\<close>

lemma createStatement_skip:
  assumes "models dataModel modelName = Some model"
    and "inserted ctx modelName = Some ins"
    and "list_ex (matches (rowIdFields model row)) ins"
  shows "createStatement (Suc n) dataModel store modelName row ctx = Some (Inr ctx)"
  using assms by simp

lemma matches_no_id: "filter isId (fields' model) = [] \<Longrightarrow> matches (rowIdFields model row) r"
  by (simp add: matches_def rowIdFields_def)

lemma rowsLoop_no_id_skip:
  assumes "models dataModel modelName = Some model"
    and "filter isId (fields' model) = []"
    and "inserted ctx modelName = Some ins" and "ins \<noteq> []"
  shows "rowsLoop (Suc n) dataModel store modelName rows ctx = Some (Inr ctx)"
proof (induction rows)
  case Nil
  then show ?case by simp
next
  case (Cons row rows)
  have "list_ex (matches (rowIdFields model row)) ins"
    using assms(2,4) matches_no_id[of model row] by (cases ins) auto
  from createStatement_skip[OF assms(1,3) this] Cons show ?case
    by (simp del: createStatement.simps)
qed

text \<open>
  C10 (as amended). In a model with no id fields every identity tuple is empty: once
  any row of the model is in the \<open>inserted\<close> list, a row of the model resolved from
  then on is skipped, and the context is left as it was. So of the rows that the loop
  over the rows of such a model visits, only the first can produce statements: the
  loop over \<open>row # rows\<close> does what the resolution of \<open>row\<close> alone does.
\<close>

theorem no_id_model_first_row_only:
  assumes "models dataModel modelName = Some model"
    and "filter isId (fields' model) = []"
  shows "(\<forall>ins. inserted ctx modelName = Some ins \<and> ins \<noteq> [] \<longrightarrow>
            createStatement (Suc n) dataModel store modelName row ctx = Some (Inr ctx))
       \<and> rowsLoop n dataModel store modelName (row # rows) ctx
            = createStatement n dataModel store modelName row ctx"
proof
  show "\<forall>ins. inserted ctx modelName = Some ins \<and> ins \<noteq> [] \<longrightarrow>
            createStatement (Suc n) dataModel store modelName row ctx = Some (Inr ctx)"
  proof (intro allI impI)
    fix ins assume h: "inserted ctx modelName = Some ins \<and> ins \<noteq> []"
    then have "list_ex (matches (rowIdFields model row)) ins"
      using assms(2) matches_no_id[of model row] by (cases ins) auto
    with h show "createStatement (Suc n) dataModel store modelName row ctx = Some (Inr ctx)"
      using createStatement_skip[OF assms(1)] by blast
  qed
next
  show "rowsLoop n dataModel store modelName (row # rows) ctx
            = createStatement n dataModel store modelName row ctx"
  proof (cases "createStatement n dataModel store modelName row ctx")
    case None
    then show ?thesis by simp
  next
    case (Some res)
    show ?thesis
    proof (cases res)
      case (Inl e)
      then show ?thesis using Some by simp
    next
      case (Inr ctx1)
      with Some have c: "createStatement n dataModel store modelName row ctx = Some (Inr ctx1)"
        by simp
      then obtain k where k: "n = Suc k" by (cases n) auto
      from createStatement_post[OF c] assms(1) obtain ins where
        "inserted ctx1 modelName = Some ins" "ins \<noteq> []" by (fastforce simp: list_ex_iff)
      from rowsLoop_no_id_skip[OF assms this] c k show ?thesis 
        by (simp del: createStatement.simps)
    qed
  qed
qed

theorem no_id_model_first_row_only_witness:
  "models (this_dataModel nodeStore) ''node'' = Some node
   \<and> filter isId (fields' node) = []
   \<and> inserted nodeCtx ''node'' = Some [nodeRow 2 JNull]
   \<and> createStatement (Suc 0) (this_dataModel nodeStore) (this_store nodeStore) ''node''
        (nodeRow 1 (JNumber 2)) nodeCtx = Some (Inr nodeCtx)
   \<and> rowsLoop 2 (this_dataModel nodeStore) (this_store nodeStore) ''node''
        [nodeRow 1 (JNumber 2), nodeRow 2 JNull] (freshCtx (this_dataModel nodeStore))
      = createStatement 2 (this_dataModel nodeStore) (this_store nodeStore) ''node''
          (nodeRow 1 (JNumber 2)) (freshCtx (this_dataModel nodeStore))"
proof -
  have m: "models (this_dataModel nodeStore) ''node'' = Some node"
    by (simp add: nodeStore_def)
  have f: "filter isId (fields' node) = []"
    by (simp add: node_def scalarField_def relationField_def)
  have i: "inserted nodeCtx ''node'' = Some [nodeRow 2 JNull]"
    by (simp add: nodeCtx_def)
  from no_id_model_first_row_only[OF m f, where ctx = nodeCtx and n = 0
      and store = "this_store nodeStore" and row = "nodeRow 1 (JNumber 2)"] i
  have "createStatement (Suc 0) (this_dataModel nodeStore) (this_store nodeStore) ''node''
        (nodeRow 1 (JNumber 2)) nodeCtx = Some (Inr nodeCtx)" by blast
  moreover
  from no_id_model_first_row_only[OF m f, where ctx = "freshCtx (this_dataModel nodeStore)"
      and n = 2 and store = "this_store nodeStore" and row = "nodeRow 1 (JNumber 2)"
      and rows = "[nodeRow 2 JNull]"]
  have "rowsLoop 2 (this_dataModel nodeStore) (this_store nodeStore) ''node''
        [nodeRow 1 (JNumber 2), nodeRow 2 JNull] (freshCtx (this_dataModel nodeStore))
      = createStatement 2 (this_dataModel nodeStore) (this_store nodeStore) ''node''
          (nodeRow 1 (JNumber 2)) (freshCtx (this_dataModel nodeStore))" by blast
  ultimately show ?thesis using m f i by blast
qed

text \<open>
  The claim as it stands bounds the INSERTs of such a model by one. Node 1 refers to
  node 2 through a column that is no id: node 2 is resolved, and inserted, while node 1
  is pending, and node 1 is inserted after it. The batch holds two INSERTs.
\<close>

theorem no_id_model_two_inserts_counterexample:
  "filter isId (fields' node) = []
   \<and> toSQL nodeOnly 2 nodeStore
      = Some (Statements [insertStatement node (nodeRow 2 JNull),
                          insertStatement node (nodeRow 1 (JNumber 2))])"
  by code_simp

section \<open>Sequence reconciliation\<close>










section \<open>Where the code departs from the claims\<close>

text \<open>
  C1. Two customers refer to each other through the nullable relation
  \<open>referrer_id\<close>. The claim has \<open>toSQL\<close> succeed, with two INSERTs whose
  \<open>referrer_id\<close> is null and two patch UPDATEs. \<open>createStatement\<close> never reads the
  nullability of a relation and emits no UPDATE: the second customer finds the first
  one pending and the synthesis throws.
\<close>

theorem nullable_cycle_throws:
  "isRequired (fields' customer ! 3) = False
   \<and> toSQL customerOnly (2 + n) circularCustomerStore
      = Some (Thrown (CircularDependency ''customer'' (customerRow 1 ''John Doe'' (JNumber 2))))"
proof -
  have "toSQL customerOnly 2 circularCustomerStore
      = Some (Thrown (CircularDependency ''customer'' (customerRow 1 ''John Doe'' (JNumber 2))))"
    by code_simp
  then have "toSQL customerOnly (2 + n) circularCustomerStore
      = Some (Thrown (CircularDependency ''customer'' (customerRow 1 ''John Doe'' (JNumber 2))))"
    by (rule toSQL_fuel_mono[rotated]) simp
  moreover have "isRequired (fields' customer ! 3) = False"
    by (simp add: customer_def relationField_def)
  ultimately show ?thesis by simp
qed

text \<open>
  C2. A store holds one customer and one product. Whichever of the two models the
  sequencer puts first, \<open>createStatements\<close> returns from inside its loop after that
  model: the batch holds the INSERT of its row and nothing for the row of the other.
\<close>

theorem second_model_not_visited:
  "toSQL customerThenProduct (1 + n) shopStore
     = Some (Statements
         [insertStatement customer (customerRow 1 ''John Doe'' JNull),
          SequenceFixerStatement ''public.customer_id_seq'' ''id'' ''public'' ''customer''])
   \<and> toSQL productThenCustomer (1 + n) shopStore
     = Some (Statements
         [insertStatement product (productRow 1 ''Gadget''),
          SequenceFixerStatement ''public.product_id_seq'' ''id'' ''public'' ''product''])"
proof -
  have "toSQL customerThenProduct 1 shopStore
     = Some (Statements
         [insertStatement customer (customerRow 1 ''John Doe'' JNull),
          SequenceFixerStatement ''public.customer_id_seq'' ''id'' ''public'' ''customer''])"
    by code_simp
  then have "toSQL customerThenProduct (1 + n) shopStore
     = Some (Statements
         [insertStatement customer (customerRow 1 ''John Doe'' JNull),
          SequenceFixerStatement ''public.customer_id_seq'' ''id'' ''public'' ''customer''])"
    by (rule toSQL_fuel_mono[rotated]) simp
  moreover have "toSQL productThenCustomer 1 shopStore
     = Some (Statements
         [insertStatement product (productRow 1 ''Gadget''),
          SequenceFixerStatement ''public.product_id_seq'' ''id'' ''public'' ''product''])"
    by code_simp
  then have "toSQL productThenCustomer (1 + n) shopStore
     = Some (Statements
         [insertStatement product (productRow 1 ''Gadget''),
          SequenceFixerStatement ''public.product_id_seq'' ''id'' ''public'' ''product''])"
    by (rule toSQL_fuel_mono[rotated]) simp
  ultimately show ?thesis by simp
qed

text \<open>
  C3. A customer is their own referrer; the relation is nullable, so no chain of
  non-nullable relations leads back to a pending row, and the claim has the synthesis
  go through. It fails with the circular-dependency error all the same: the error is
  thrown for every relation that leads to a pending row.
\<close>

theorem nullable_self_reference_throws:
  "isRequired (fields' customer ! 3) = False
   \<and> toSQL customerOnly (1 + n) selfReferringStore
      = Some (Thrown (CircularDependency ''customer'' (customerRow 1 ''John Doe'' (JNumber 1))))"
proof -
  have "toSQL customerOnly 1 selfReferringStore
      = Some (Thrown (CircularDependency ''customer'' (customerRow 1 ''John Doe'' (JNumber 1))))"
    by code_simp
  then have "toSQL customerOnly (1 + n) selfReferringStore
      = Some (Thrown (CircularDependency ''customer'' (customerRow 1 ''John Doe'' (JNumber 1))))"
    by (rule toSQL_fuel_mono[rotated]) simp
  moreover have "isRequired (fields' customer ! 3) = False"
    by (simp add: customer_def relationField_def)
  ultimately show ?thesis by simp
qed

text \<open>
  C4. A customer is added with no \<open>name\<close>, a column with a default. The value passed
  for the column is \<open>serializeToSQL(type, undefined)\<close>, the very value passed when the
  column has no default: \<open>createStatement\<close> does not read \<open>hasDefaultValue\<close> and
  puts no DEFAULT marker in the statement.
\<close>

theorem default_column_not_marked:
  "hasDefaultValue (fields' test_customer ! 1) = True
   \<and> toSQL testCustomerOnly (1 + n) testCustomerStore
     = Some (Statements
         [InsertStatement False ''public'' ''test_customer'' [''id'', ''name'', ''email'']
            [SerializeToSQL ''int4'' None, SerializeToSQL ''text'' None,
             SerializeToSQL ''text'' (Some (JString ''cadavre@ex.quis''))],
          SequenceFixerStatement ''public.test_customer_id_seq'' ''id'' ''public''
            ''test_customer''])
   \<and> toSQL testCustomerNoDefaultOnly (1 + n) testCustomerNoDefaultStore
     = toSQL testCustomerOnly (1 + n) testCustomerStore"
proof -
  let ?out = "Some (Statements
         [InsertStatement False ''public'' ''test_customer'' [''id'', ''name'', ''email'']
            [SerializeToSQL ''int4'' None, SerializeToSQL ''text'' None,
             SerializeToSQL ''text'' (Some (JString ''cadavre@ex.quis''))],
          SequenceFixerStatement ''public.test_customer_id_seq'' ''id'' ''public''
            ''test_customer''])"
  have "toSQL testCustomerOnly 1 testCustomerStore = ?out"
    by code_simp
  then have a: "toSQL testCustomerOnly (1 + n) testCustomerStore = ?out"
    by (rule toSQL_fuel_mono[rotated]) simp
  have "toSQL testCustomerNoDefaultOnly 1 testCustomerNoDefaultStore = ?out"
    by code_simp
  then have b: "toSQL testCustomerNoDefaultOnly (1 + n) testCustomerNoDefaultStore = ?out"
    by (rule toSQL_fuel_mono[rotated]) simp
  have "hasDefaultValue (fields' test_customer ! 1) = True"
    by (simp add: test_customer_def scalarField_def)
  with a b show ?thesis by simp
qed

text \<open>
  What holds of the idempotence of C6: a row whose identity tuple is in the \<open>inserted\<close>
  list of its model is skipped, and a row that has been resolved is skipped when it is
  resolved again.
\<close>

lemma createStatement_again:
  assumes "createStatement n dataModel store modelName row ctx = Some (Inr ctx')"
  shows "createStatement (Suc k) dataModel store modelName row ctx' = Some (Inr ctx')"
proof -
  from createStatement_post[OF assms] obtain model ins where
    "models dataModel modelName = Some model" "inserted ctx' modelName = Some ins"
    "list_ex (matches (rowIdFields model row)) ins" by blast
  then show ?thesis by (rule createStatement_skip)
qed

text \<open>
  C6. The claim has one INSERT for a row however often it is resolved. The items are
  identified by \<open>(id, tenant)\<close> and were added without an id. Item A is resolved and,
  while it is pending, item Z is inserted; the filter that is to take Z out of the
  pending rows keeps only the rows that differ from Z in every id field, so it takes
  out A (and X) too. Item A is then reached again through X, is not seen as pending,
  is resolved a second time and inserted, and is inserted once more when its first
  resolution ends: the batch holds its INSERT twice.
\<close>

theorem row_inserted_twice:
  "toSQL itemOnly (4 + n) itemStore
     = Some (Statements
         [insertStatement item (itemRow 2 ''Z'' JNull JNull),
          insertStatement item (itemRow 1 ''A'' (JString ''X'') JNull),
          insertStatement item (itemRow 2 ''X'' (JString ''Z'') (JString ''A'')),
          insertStatement item (itemRow 1 ''A'' (JString ''X'') JNull),
          SequenceFixerStatement ''public.item_id_seq'' ''id'' ''public'' ''item''])"
proof -
  have "toSQL itemOnly 4 itemStore
     = Some (Statements
         [insertStatement item (itemRow 2 ''Z'' JNull JNull),
          insertStatement item (itemRow 1 ''A'' (JString ''X'') JNull),
          insertStatement item (itemRow 2 ''X'' (JString ''Z'') (JString ''A'')),
          insertStatement item (itemRow 1 ''A'' (JString ''X'') JNull),
          SequenceFixerStatement ''public.item_id_seq'' ''id'' ''public'' ''item''])"
    by code_simp
  then show ?thesis
    by (rule toSQL_fuel_mono[rotated]) simp
qed

end
